theory Spec2Isabelle
  imports Main
begin

section \<open>Strings\<close>

text \<open>
  A Python \<open>str\<close> is modelled as a \<open>string\<close>, one \<open>char\<close> per code point below 256.
  \<open>is_space\<close> is the set of such code points for which \<open>str.isspace()\<close> holds; the
  same set is what \<open>\s\<close> matches in a \<open>str\<close> pattern of module \<open>re\<close> and what
  \<open>str.strip()\<close> removes. A text with a code point from 256 on is outside the model.
\<close>

abbreviation (input) nl :: char where
  "nl \<equiv> CHR 0x0A"

definition is_space :: "char \<Rightarrow> bool" where
  "is_space c \<longleftrightarrow> c \<in> set [CHR 0x09, CHR 0x0A, CHR 0x0B, CHR 0x0C, CHR 0x0D,
      CHR 0x1C, CHR 0x1D, CHR 0x1E, CHR 0x1F, CHR 0x20, CHR 0x85, CHR 0xA0]"

definition not_nl :: "char \<Rightarrow> bool" where
  "not_nl c \<longleftrightarrow> c \<noteq> nl"

definition any_char :: "char \<Rightarrow> bool" where
  "any_char c \<longleftrightarrow> True"

definition strip :: "string \<Rightarrow> string" where
  "strip s = rev (dropWhile is_space (rev (dropWhile is_space s)))"

text \<open>\<open>sub in s\<close> of Python, for strings: \<open>sub\<close> occurs in \<open>s\<close> as a contiguous run.\<close>

definition starts_with :: "string \<Rightarrow> string \<Rightarrow> bool" where
  "starts_with p s \<longleftrightarrow> take (length p) s = p"

fun contains :: "string \<Rightarrow> string \<Rightarrow> bool" where
  "contains sub [] = (sub = [])"
| "contains sub (c # cs) = (starts_with sub (c # cs) \<or> contains sub cs)"

text \<open>\<open>sep.join(xs)\<close>.\<close>

fun join :: "string \<Rightarrow> string list \<Rightarrow> string" where
  "join sep [] = []"
| "join sep [x] = x"
| "join sep (x # y # ys) = x @ sep @ join sep (y # ys)"

section \<open>Regular expressions as backtracking matchers\<close>

text \<open>
  Module \<open>re\<close> matches by backtracking: a greedy quantifier first takes as much as it
  can and gives characters back while the rest of the pattern fails, a lazy quantifier
  first takes nothing and takes more while the rest fails. A pattern is modelled as a
  function from the matcher of the rest of the pattern (a continuation, applied to the
  text not yet consumed) to a matcher; \<open>None\<close> is failure. Each pattern of the
  program is then written down piece by piece.
\<close>

type_synonym 'r cont = "string \<Rightarrow> 'r option"

text \<open>A run of literal characters.\<close>

definition lit :: "string \<Rightarrow> 'r cont \<Rightarrow> 'r cont" where
  "lit p k s = (if starts_with p s then k (drop (length p) s) else None)"

text \<open>\<open>c*\<close> for a character class \<open>c\<close>: greedy.\<close>

fun star :: "(char \<Rightarrow> bool) \<Rightarrow> 'r cont \<Rightarrow> 'r cont" where
  "star P k [] = k []"
| "star P k (c # cs) =
     (if P c then (case star P k cs of Some r \<Rightarrow> Some r | None \<Rightarrow> k (c # cs))
      else k (c # cs))"

text \<open>\<open>c+\<close>: one character of the class, then \<open>c*\<close>.\<close>

fun plus_cls :: "(char \<Rightarrow> bool) \<Rightarrow> 'r cont \<Rightarrow> 'r cont" where
  "plus_cls P k [] = None"
| "plus_cls P k (c # cs) = (if P c then star P k cs else None)"

text \<open>\<open>c*?\<close>: lazy.\<close>

fun lazy_star :: "(char \<Rightarrow> bool) \<Rightarrow> 'r cont \<Rightarrow> 'r cont" where
  "lazy_star P k [] = k []"
| "lazy_star P k (c # cs) =
     (case k (c # cs) of Some r \<Rightarrow> Some r
      | None \<Rightarrow> (if P c then lazy_star P k cs else None))"

text \<open>
  \<open>(?:m)*?\<close> for a pattern \<open>m\<close>: lazy. An iteration that consumes nothing is not
  repeated.
\<close>

function lazy_rep :: "('r cont \<Rightarrow> 'r cont) \<Rightarrow> 'r cont \<Rightarrow> 'r cont" where
  "lazy_rep m k s =
     (case k s of Some r \<Rightarrow> Some r
      | None \<Rightarrow> m (\<lambda>s'. if length s' < length s then lazy_rep m k s' else None) s)"
  by pat_completeness auto
termination
  by (relation "measure (\<lambda>(m, k, s). length s)") auto

declare lazy_rep.simps [simp del]

text \<open>\<open>m1|m2\<close>: the left alternative first.\<close>

definition alt :: "('r cont \<Rightarrow> 'r cont) \<Rightarrow> ('r cont \<Rightarrow> 'r cont) \<Rightarrow> 'r cont \<Rightarrow> 'r cont" where
  "alt m1 m2 k s = (case m1 k s of Some r \<Rightarrow> Some r | None \<Rightarrow> m2 k s)"

text \<open>
  \<open>$\<close> without \<open>re.MULTILINE\<close>: at the end of the text, or just before a newline that
  is its last character.
\<close>

definition eos :: "'r cont \<Rightarrow> 'r cont" where
  "eos k s = (if s = [] \<or> s = [nl] then k s else None)"

text \<open>\<open>(?=m)\<close>: \<open>m\<close> matches here; nothing is consumed.\<close>

definition look :: "(unit cont \<Rightarrow> unit cont) \<Rightarrow> 'r cont \<Rightarrow> 'r cont" where
  "look m k s = (case m (\<lambda>_. Some ()) s of Some _ \<Rightarrow> k s | None \<Rightarrow> None)"

text \<open>\<open>(m)\<close>: the text that \<open>m\<close> consumed is handed to the rest of the pattern.\<close>

definition grp :: "('r cont \<Rightarrow> 'r cont) \<Rightarrow> (string \<Rightarrow> 'r cont) \<Rightarrow> 'r cont" where
  "grp m kc s = m (\<lambda>s'. kc (take (length s - length s') s) s') s"

text \<open>The end of a pattern with one group: the match object, of which only group 1 is read.\<close>

definition matched :: "string \<Rightarrow> string cont" where
  "matched g s = Some g"

text \<open>\<open>re.search\<close>: the first position, from the left, at which the pattern matches.\<close>

fun re_search :: "'r cont \<Rightarrow> 'r cont" where
  "re_search m [] = m []"
| "re_search m (c # cs) = (case m (c # cs) of Some r \<Rightarrow> Some r | None \<Rightarrow> re_search m cs)"

text \<open>
  \<open>re.split\<close> with a pattern that is a run of literal characters (no group, not
  empty): the pieces between its occurrences, found from the left without overlap.
\<close>

fun split_acc :: "string \<Rightarrow> string \<Rightarrow> string \<Rightarrow> string list" where
  "split_acc sep acc [] = [rev acc]"
| "split_acc sep acc (c # cs) =
     (if starts_with sep (c # cs) then rev acc # split_acc sep [] (drop (length sep - 1) cs)
      else split_acc sep (c # acc) cs)"

definition re_split :: "string \<Rightarrow> string \<Rightarrow> string list" where
  "re_split sep s = split_acc sep [] s"

section \<open>Values\<close>

text \<open>
  The values the program builds are strings, lists and dictionaries with string keys (the
  same values \<open>json.dump\<close> writes). A dictionary is the list of its items in insertion
  order, without duplicate keys.
\<close>

datatype pyval = Str string | List "pyval list" | Dict "(string \<times> pyval) list"

text \<open>Truth value of an object: an empty string, list or dictionary is false.\<close>

fun truthy :: "pyval \<Rightarrow> bool" where
  "truthy (Str s) = (s \<noteq> [])"
| "truthy (List xs) = (xs \<noteq> [])"
| "truthy (Dict kvs) = (kvs \<noteq> [])"

section \<open>The document extractor: \<open>parse_yaml_tasks\<close>\<close>

subsection \<open>The patterns\<close>

text \<open>
  \<open>key:\s*(.+)\<close> and \<open>key:\s*([^\n]+)\<close>, both without \<open>re.DOTALL\<close>, where \<open>.\<close> is any
  character but a newline: patterns of \<open>project\<close>, \<open>owner\<close>, \<open>goal\<close>, \<open>title\<close>,
  \<open>deliverables\<close> and \<open>date\<close>.
\<close>

definition field_re :: "string \<Rightarrow> string cont" where
  "field_re key = lit key (star is_space (grp (plus_cls not_nl) matched))"

text \<open>
  \<open>^([^\n]+)\<close> without \<open>re.MULTILINE\<close>: \<open>^\<close> holds at the start of the text only, so
  the search is one attempt there.
\<close>

definition first_line_search :: "string cont" where
  "first_line_search = grp (plus_cls not_nl) matched"

text \<open>\<open>phases:\s*\n(.*?)(?=milestones:|$)\<close> with \<open>re.DOTALL\<close>.\<close>

definition phases_re :: "string cont" where
  "phases_re = lit ''phases:'' (star is_space (lit [nl] (grp (lazy_star any_char)
     (\<lambda>g. look (alt (lit ''milestones:'') eos) (matched g)))))"

text \<open>\<open>tasks:\s*\n(.*?)(?=\n  - name:|$)\<close> with \<open>re.DOTALL\<close>.\<close>

definition tasks_re :: "string cont" where
  "tasks_re = lit ''tasks:'' (star is_space (lit [nl] (grp (lazy_star any_char)
     (\<lambda>g. look (alt (lit (nl # ''  - name:'')) eos) (matched g)))))"

text \<open>\<open>description:\s*([^\n]+(?:\n[^\n]*)*?)(?=\n      - id:|$)\<close> with \<open>re.DOTALL\<close>.\<close>

definition description_re :: "string cont" where
  "description_re = lit ''description:'' (star is_space
     (grp (\<lambda>k. plus_cls not_nl (lazy_rep (\<lambda>k'. lit [nl] (star not_nl k')) k))
       (\<lambda>g. look (alt (lit (nl # ''      - id:'')) eos) (matched g))))"

text \<open>\<open>milestones:\s*\n(.*?)$\<close> with \<open>re.DOTALL\<close>.\<close>

definition milestones_re :: "string cont" where
  "milestones_re = lit ''milestones:'' (star is_space (lit [nl] (grp (lazy_star any_char)
     (\<lambda>g. eos (matched g)))))"

subsection \<open>The extraction\<close>

text \<open>
  \<open>d[key] = m.group(1).strip()\<close> under \<open>if m:\<close>, on a dictionary whose entry for
  \<open>key\<close> was initialised to the empty string: the value of the entry afterwards.
\<close>

definition field_value :: "string option \<Rightarrow> string" where
  "field_value m = (case m of None \<Rightarrow> [] | Some g \<Rightarrow> strip g)"

text \<open>The body of the loop over \<open>task_blocks\<close>: the dictionary \<open>task\<close> before the test.\<close>

definition task_of_block :: "string \<Rightarrow> pyval" where
  "task_of_block task_block =
     Dict [(''id'', Str (field_value (first_line_search task_block))),
           (''title'', Str (field_value (re_search (field_re ''title:'') task_block))),
           (''description'', Str (field_value (re_search description_re task_block)))]"

text \<open>\<open>record['id'] and record['title']\<close>, the test under which a record is appended.\<close>

fun id_and_title :: "pyval \<Rightarrow> bool" where
  "id_and_title (Dict kvs) =
     (case (map_of kvs ''id'', map_of kvs ''title'') of
        (Some i, Some t) \<Rightarrow> truthy i \<and> truthy t
      | _ \<Rightarrow> False)"
| "id_and_title _ = False"

text \<open>
  The candidate records of a text: the pieces after each marker. The piece before the
  first marker (index 0) is skipped.
\<close>

definition candidate_blocks :: "string \<Rightarrow> string \<Rightarrow> string list" where
  "candidate_blocks marker s = drop 1 (re_split marker s)"

text \<open>The list \<open>phase['tasks']\<close> after the block of a phase has been processed.\<close>

definition tasks_of_block :: "string \<Rightarrow> pyval list" where
  "tasks_of_block block =
     (case re_search tasks_re block of
        None \<Rightarrow> []
      | Some tasks_content \<Rightarrow>
          filter id_and_title
            (map task_of_block (candidate_blocks (nl # ''      - id:'') tasks_content)))"

text \<open>The body of the loop over \<open>phase_blocks\<close>: the dictionary \<open>phase\<close> before the test.\<close>

definition phase_of_block :: "string \<Rightarrow> pyval" where
  "phase_of_block block =
     Dict [(''name'', Str (field_value (first_line_search block))),
           (''goal'', Str (field_value (re_search (field_re ''goal:'') block))),
           (''tasks'', List (tasks_of_block block))]"

text \<open>\<open>phase['name']\<close> as a truth value, the test under which a phase is appended.\<close>

fun has_name :: "pyval \<Rightarrow> bool" where
  "has_name (Dict kvs) = (case map_of kvs ''name'' of Some n \<Rightarrow> truthy n | None \<Rightarrow> False)"
| "has_name _ = False"

definition phases_of :: "string \<Rightarrow> pyval list" where
  "phases_of content =
     (case re_search phases_re content of
        None \<Rightarrow> []
      | Some phases_content \<Rightarrow>
          filter has_name
            (map phase_of_block (candidate_blocks (nl # ''  - name:'') phases_content)))"

text \<open>The body of the loop over \<open>milestone_blocks\<close>.\<close>

definition milestone_of_block :: "string \<Rightarrow> pyval" where
  "milestone_of_block block =
     Dict [(''id'', Str (field_value (first_line_search block))),
           (''title'', Str (field_value (re_search (field_re ''title:'') block))),
           (''deliverables'', Str (field_value (re_search (field_re ''deliverables:'') block))),
           (''date'', Str (field_value (re_search (field_re ''date:'') block)))]"

definition milestones_of :: "string \<Rightarrow> pyval list" where
  "milestones_of content =
     (case re_search milestones_re content of
        None \<Rightarrow> []
      | Some milestones_content \<Rightarrow>
          filter id_and_title
            (map milestone_of_block (candidate_blocks (nl # ''  - id:'') milestones_content)))"

text \<open>The dictionary \<open>tasks_data\<close> that \<open>parse_yaml_tasks\<close> returns for the text of the file.\<close>

definition parse_content :: "string \<Rightarrow> pyval" where
  "parse_content content =
     Dict [(''project'', Str (field_value (re_search (field_re ''project:'') content))),
           (''owner'', Str (field_value (re_search (field_re ''owner:'') content))),
           (''phases'', List (phases_of content)),
           (''milestones'', List (milestones_of content))]"

section \<open>Operations on values\<close>

text \<open>
  Exceptions the program can meet. \<open>SystemExit\<close> carries the exit status asked for;
  \<open>LaunchError\<close> stands for what \<open>subprocess.run\<close> raises when the command cannot be
  started (it is not a \<open>CalledProcessError\<close>).
\<close>

datatype exn = KeyError string | TypeError | AttributeError | LaunchError string | SystemExit int

definition ebind :: "exn + 'a \<Rightarrow> ('a \<Rightarrow> exn + 'b) \<Rightarrow> exn + 'b" where
  "ebind r f = (case r of Inl e \<Rightarrow> Inl e | Inr v \<Rightarrow> f v)"

text \<open>\<open>d[key]\<close> with a string key.\<close>

fun subscript :: "pyval \<Rightarrow> string \<Rightarrow> exn + pyval" where
  "subscript (Dict kvs) key = (case map_of kvs key of Some v \<Rightarrow> Inr v | None \<Rightarrow> Inl (KeyError key))"
| "subscript _ key = Inl TypeError"

text \<open>\<open>d.get(key, default)\<close>.\<close>

fun dict_get :: "pyval \<Rightarrow> string \<Rightarrow> pyval \<Rightarrow> exn + pyval" where
  "dict_get (Dict kvs) key dflt = (case map_of kvs key of Some v \<Rightarrow> Inr v | None \<Rightarrow> Inr dflt)"
| "dict_get _ key dflt = Inl AttributeError"

text \<open>\<open>key in v\<close> for a string \<open>key\<close>.\<close>

fun py_in :: "string \<Rightarrow> pyval \<Rightarrow> bool" where
  "py_in key (Str s) = contains key s"
| "py_in key (List xs) = (Str key \<in> set xs)"
| "py_in key (Dict kvs) = (key \<in> set (map fst kvs))"

text \<open>The items a \<open>for\<close> loop over a value goes through.\<close>

fun py_iter :: "pyval \<Rightarrow> pyval list" where
  "py_iter (List xs) = xs"
| "py_iter (Str s) = map (\<lambda>c. Str [c]) s"
| "py_iter (Dict kvs) = map (\<lambda>kv. Str (fst kv)) kvs"

text \<open>\<open>str(n)\<close> for a length.\<close>

fun str_nat :: "nat \<Rightarrow> string" where
  "str_nat n = (if n < 10 then [char_of (48 + n)]
                else str_nat (n div 10) @ [char_of (48 + n mod 10)])"

declare str_nat.simps [simp del]

section \<open>The environment of a run\<close>

text \<open>
  The outcome of \<open>subprocess.run(cmd, capture_output=True, text=True, check=True)\<close>
  before \<open>check\<close> is applied: the command ran and ended with a return code, its standard
  output and its standard error, or it could not be started.
\<close>

datatype run_result = Completed int string string | NotStarted string

text \<open>
  What the program does not decide: \<open>gh\<close> is the external command, whose outcome may
  depend on the invocations made before (their argument vectors, oldest first) and on
  its own arguments; \<open>cpe_str\<close> is \<open>str(e)\<close> of the \<open>CalledProcessError\<close> for an argument
  vector and a return code; \<open>py_repr\<close> is \<open>str(v)\<close> of a list or a dictionary.
\<close>

record env =
  gh :: "string list list \<Rightarrow> string list \<Rightarrow> run_result"
  cpe_str :: "string list \<Rightarrow> int \<Rightarrow> string"
  py_repr :: "pyval \<Rightarrow> string"

text \<open>
  The state of the world: for each path, what reading the file as text gives (\<open>Inl\<close> the
  text of the exception raised by \<open>open\<close> or \<open>read\<close>, \<open>Inr\<close> the content); the files
  written by \<open>json.dump\<close>, each as the value it holds; the arguments of the calls of
  \<open>print\<close>, oldest first; the argument vectors of the commands run, oldest first.
\<close>

record world =
  text_files :: "string \<Rightarrow> string + string"
  json_files :: "string \<Rightarrow> pyval option"
  printed :: "string list"
  calls :: "string list list"

definition print :: "string \<Rightarrow> world \<Rightarrow> world" where
  "print line w = w\<lparr>printed := printed w @ [line]\<rparr>"

text \<open>
  \<open>with open(path, 'w') as f: json.dump(v, f, indent=2)\<close>: the file is truncated, then
  holds \<open>v\<close>.
\<close>

definition json_dump :: "string \<Rightarrow> pyval \<Rightarrow> world \<Rightarrow> world" where
  "json_dump path v w = w\<lparr>json_files := (json_files w)(path \<mapsto> v)\<rparr>"

text \<open>A value inside an f-string.\<close>

fun py_str :: "env \<Rightarrow> pyval \<Rightarrow> string" where
  "py_str E (Str s) = s"
| "py_str E v = py_repr E v"

definition item_str :: "env \<Rightarrow> pyval \<Rightarrow> string \<Rightarrow> exn + string" where
  "item_str E d key = ebind (subscript d key) (\<lambda>v. Inr (py_str E v))"

text \<open>\<open>parse_yaml_tasks(file_path)\<close>: any exception is printed and ends the run with status 1.\<close>

definition parse_yaml_tasks :: "string \<Rightarrow> world \<Rightarrow> (exn + pyval) \<times> world" where
  "parse_yaml_tasks file_path w =
     (case text_files w file_path of
        Inr content \<Rightarrow> (Inr (parse_content content), w)
      | Inl e \<Rightarrow> (Inl (SystemExit 1), print (''Error loading tasks file: '' @ e) w))"

section \<open>The record formatter and the submission client\<close>

subsection \<open>\<open>create_github_issue\<close>\<close>

text \<open>\<open>title = f"[{task['id']}] {task['title']}"\<close>.\<close>

definition issue_title :: "env \<Rightarrow> pyval \<Rightarrow> exn + string" where
  "issue_title E task =
     ebind (item_str E task ''id'') (\<lambda>i.
     ebind (item_str E task ''title'') (\<lambda>t.
     Inr (''['' @ i @ ''] '' @ t)))"

text \<open>The body: the template with its five fields, read in the order they occur.\<close>

definition issue_body :: "env \<Rightarrow> pyval \<Rightarrow> pyval \<Rightarrow> pyval \<Rightarrow> exn + string" where
  "issue_body E task phase_name project_info =
     ebind (item_str E task ''description'') (\<lambda>d.
     ebind (item_str E project_info ''project'') (\<lambda>p.
     ebind (item_str E project_info ''owner'') (\<lambda>ow.
     ebind (item_str E task ''id'') (\<lambda>i.
     Inr (''## Task Description\<newline>'' @ d @ ''\<newline>\<newline>''
        @ ''## Epic/Phase\<newline>**'' @ py_str E phase_name @ ''**\<newline>\<newline>''
        @ ''## Project Context\<newline>''
        @ ''- **Project:** '' @ p @ ''\<newline>''
        @ ''- **Owner:** '' @ ow @ ''\<newline>''
        @ ''- **Task ID:** '' @ i @ ''\<newline>\<newline>''
        @ ''## Acceptance Criteria\<newline>''
        @ ''- [ ] Implementation complete\<newline>''
        @ ''- [ ] Unit tests written\<newline>''
        @ ''- [ ] Integration tests passing\<newline>''
        @ ''- [ ] Documentation updated\<newline>''
        @ ''- [ ] Code reviewed and approved\<newline>\<newline>''
        @ ''---\<newline>''
        @ ''*This issue was auto-generated from tasks.yaml*\<newline>'')))))"

text \<open>The labels: \<open>["task"]\<close>, extended by the branch of the \<open>if\<close>/\<open>elif\<close> chain that is taken.\<close>

definition issue_labels :: "pyval \<Rightarrow> string list" where
  "issue_labels phase_name =
     [''task''] @
     (if py_in ''Epic 1'' phase_name then [''epic-1'', ''control-plane'', ''api'']
      else if py_in ''Epic 2'' phase_name then [''epic-2'', ''node-runtime'', ''connectors'']
      else if py_in ''Epic 3'' phase_name then [''epic-3'', ''agent-definition'', ''deployment'']
      else if py_in ''Epic 4'' phase_name then [''epic-4'', ''observability'', ''monitoring'']
      else if py_in ''Epic 5'' phase_name then [''epic-5'', ''ui'', ''frontend'']
      else if py_in ''Epic 6'' phase_name then [''epic-6'', ''infrastructure'', ''ci-cd'']
      else if py_in ''Epic 7'' phase_name then [''epic-7'', ''testing'', ''validation'']
      else if py_in ''Epic 8'' phase_name then [''epic-8'', ''documentation'', ''demo'']
      else [])"

definition gh_cmd :: "string \<Rightarrow> string \<Rightarrow> string \<Rightarrow> string list" where
  "gh_cmd title body labels =
     [''gh'', ''issue'', ''create'', ''--title'', title, ''--body'', body, ''--label'', labels]"

definition issue_cmd :: "env \<Rightarrow> pyval \<Rightarrow> pyval \<Rightarrow> pyval \<Rightarrow> exn + string list" where
  "issue_cmd E task phase_name project_info =
     ebind (issue_title E task) (\<lambda>title.
     ebind (issue_body E task phase_name project_info) (\<lambda>body.
     Inr (gh_cmd title body (join '','' (issue_labels phase_name)))))"

text \<open>
  \<open>subprocess.run(cmd, capture_output=True, text=True, check=True)\<close>: the command is run
  and recorded.
\<close>

definition run :: "env \<Rightarrow> string list \<Rightarrow> world \<Rightarrow> run_result \<times> world" where
  "run E cmd w = (gh E (calls w) cmd, w\<lparr>calls := calls w @ [cmd]\<rparr>)"

text \<open>The two lines printed for a \<open>CalledProcessError\<close>; the second only if \<open>e.stderr\<close> is not empty.\<close>

definition print_failure :: "env \<Rightarrow> string \<Rightarrow> string \<Rightarrow> string list \<Rightarrow> int \<Rightarrow> string \<Rightarrow> world \<Rightarrow> world" where
  "print_failure E what title cmd rc err w =
     (let w1 = print (''Error creating '' @ what @ '' '' @ [CHR 0x27] @ title @ [CHR 0x27]
                        @ '': '' @ cpe_str E cmd rc) w
      in if err \<noteq> [] then print (''  Error output: '' @ err) w1 else w1)"

text \<open>
  \<open>create_github_issue(task, phase_name, project_info)\<close>: the result is \<open>Some\<close> of the
  URL returned, or \<open>None\<close> for the \<open>None\<close> returned after a \<open>CalledProcessError\<close>.
\<close>

definition create_github_issue ::
  "env \<Rightarrow> pyval \<Rightarrow> pyval \<Rightarrow> pyval \<Rightarrow> world \<Rightarrow> (exn + string option) \<times> world" where
  "create_github_issue E task phase_name project_info w =
     (case issue_title E task of
        Inl e \<Rightarrow> (Inl e, w)
      | Inr title \<Rightarrow>
     (case issue_body E task phase_name project_info of
        Inl e \<Rightarrow> (Inl e, w)
      | Inr body \<Rightarrow>
     (let cmd = gh_cmd title body (join '','' (issue_labels phase_name))
      in case run E cmd w of
           (NotStarted e, w1) \<Rightarrow> (Inl (LaunchError e), w1)
         | (Completed rc out err, w1) \<Rightarrow>
             if rc = 0
             then (let issue_url = strip out
                   in (Inr (Some issue_url),
                       print (''  URL: '' @ issue_url) (print (''Created issue: '' @ title) w1)))
             else (Inr None, print_failure E ''issue'' title cmd rc err w1))))"

subsection \<open>\<open>create_milestone_issues\<close>\<close>

definition milestone_title :: "env \<Rightarrow> pyval \<Rightarrow> exn + string" where
  "milestone_title E milestone =
     ebind (item_str E milestone ''title'') (\<lambda>t. Inr (''[MILESTONE] '' @ t))"

text \<open>\<open>milestone.get('description', 'Milestone for project phase completion')\<close> in the f-string.\<close>

definition milestone_overview :: "env \<Rightarrow> pyval \<Rightarrow> exn + string" where
  "milestone_overview E milestone =
     ebind (dict_get milestone ''description'' (Str ''Milestone for project phase completion''))
       (\<lambda>v. Inr (py_str E v))"

definition milestone_body :: "env \<Rightarrow> pyval \<Rightarrow> pyval \<Rightarrow> exn + string" where
  "milestone_body E milestone project_info =
     ebind (milestone_overview E milestone) (\<lambda>ov.
     ebind (item_str E milestone ''deliverables'') (\<lambda>dl.
     ebind (item_str E milestone ''date'') (\<lambda>dt.
     ebind (item_str E project_info ''project'') (\<lambda>p.
     ebind (item_str E project_info ''owner'') (\<lambda>ow.
     ebind (item_str E milestone ''id'') (\<lambda>i.
     Inr (''## Milestone Overview\<newline>'' @ ov @ ''\<newline>\<newline>''
        @ ''## Deliverables\<newline>'' @ dl @ ''\<newline>\<newline>''
        @ ''## Target Date\<newline>**'' @ dt @ ''**\<newline>\<newline>''
        @ ''## Project Context\<newline>''
        @ ''- **Project:** '' @ p @ ''\<newline>''
        @ ''- **Owner:** '' @ ow @ ''\<newline>''
        @ ''- **Milestone ID:** '' @ i @ ''\<newline>\<newline>''
        @ ''## Completion Criteria\<newline>''
        @ ''- [ ] All related tasks completed\<newline>''
        @ ''- [ ] Deliverables validated\<newline>''
        @ ''- [ ] Documentation updated\<newline>''
        @ ''- [ ] Demo/review completed\<newline>\<newline>''
        @ ''---\<newline>''
        @ ''*This milestone was auto-generated from tasks.yaml*\<newline>'')))))))"

definition milestone_labels :: "string" where
  "milestone_labels = ''milestone,epic''"

text \<open>The loop of \<open>create_milestone_issues\<close>, with \<open>milestone_urls\<close> as it stands.\<close>

fun milestone_loop ::
  "env \<Rightarrow> pyval \<Rightarrow> pyval list \<Rightarrow> string list \<Rightarrow> world \<Rightarrow> (exn + string list) \<times> world" where
  "milestone_loop E project_info [] milestone_urls w = (Inr milestone_urls, w)"
| "milestone_loop E project_info (milestone # rest) milestone_urls w =
     (case milestone_title E milestone of
        Inl e \<Rightarrow> (Inl e, w)
      | Inr title \<Rightarrow>
     (case milestone_body E milestone project_info of
        Inl e \<Rightarrow> (Inl e, w)
      | Inr body \<Rightarrow>
     (let cmd = gh_cmd title body milestone_labels
      in case run E cmd w of
           (NotStarted e, w1) \<Rightarrow> (Inl (LaunchError e), w1)
         | (Completed rc out err, w1) \<Rightarrow>
             if rc = 0
             then (let issue_url = strip out
                   in milestone_loop E project_info rest (milestone_urls @ [issue_url])
                        (print (''  URL: '' @ issue_url) (print (''Created milestone: '' @ title) w1)))
             else milestone_loop E project_info rest milestone_urls
                    (print_failure E ''milestone'' title cmd rc err w1))))"

definition create_milestone_issues ::
  "env \<Rightarrow> pyval \<Rightarrow> pyval \<Rightarrow> world \<Rightarrow> (exn + string list) \<times> world" where
  "create_milestone_issues E milestones project_info w =
     milestone_loop E project_info (py_iter milestones) [] w"

section \<open>The batch orchestrator: \<open>main\<close>\<close>

text \<open>The dictionary appended to \<open>created_issues\<close> for a task and its URL.\<close>

definition created_record :: "pyval \<Rightarrow> string \<Rightarrow> exn + pyval" where
  "created_record task issue_url =
     ebind (subscript task ''id'') (\<lambda>i.
     ebind (subscript task ''title'') (\<lambda>t.
     Inr (Dict [(''task_id'', i), (''title'', t), (''url'', Str issue_url)])))"

text \<open>The loop over the tasks of a phase, with \<open>created_issues\<close> as it stands.\<close>

fun task_loop ::
  "env \<Rightarrow> pyval \<Rightarrow> pyval \<Rightarrow> pyval list \<Rightarrow> pyval list \<Rightarrow> world \<Rightarrow> (exn + pyval list) \<times> world" where
  "task_loop E phase_name project_info [] created_issues w = (Inr created_issues, w)"
| "task_loop E phase_name project_info (task # rest) created_issues w =
     (case create_github_issue E task phase_name project_info w of
        (Inl e, w1) \<Rightarrow> (Inl e, w1)
      | (Inr None, w1) \<Rightarrow> task_loop E phase_name project_info rest created_issues w1
      | (Inr (Some issue_url), w1) \<Rightarrow>
          if issue_url \<noteq> []
          then (case created_record task issue_url of
                  Inl e \<Rightarrow> (Inl e, w1)
                | Inr r \<Rightarrow> task_loop E phase_name project_info rest (created_issues @ [r]) w1)
          else task_loop E phase_name project_info rest created_issues w1)"

text \<open>The loop over the phases.\<close>

fun phase_loop ::
  "env \<Rightarrow> pyval \<Rightarrow> pyval list \<Rightarrow> pyval list \<Rightarrow> world \<Rightarrow> (exn + pyval list) \<times> world" where
  "phase_loop E project_info [] created_issues w = (Inr created_issues, w)"
| "phase_loop E project_info (phase # rest) created_issues w =
     (case subscript phase ''name'' of
        Inl e \<Rightarrow> (Inl e, w)
      | Inr phase_name \<Rightarrow>
     (let w1 = print (nl # ''Processing phase: '' @ py_str E phase_name) w
      in case dict_get phase ''goal'' (Str ''No goal specified'') of
           Inl e \<Rightarrow> (Inl e, w1)
         | Inr goal \<Rightarrow>
     (let w2 = print (''Goal: '' @ py_str E goal) w1
      in case dict_get phase ''tasks'' (List []) of
           Inl e \<Rightarrow> (Inl e, w2)
         | Inr tasks \<Rightarrow>
     (case task_loop E phase_name project_info (py_iter tasks) created_issues w2 of
        (Inl e, w3) \<Rightarrow> (Inl e, w3)
      | (Inr created, w3) \<Rightarrow> phase_loop E project_info rest created w3))))"

text \<open>The name of the summary file.\<close>

definition summary_path :: string where
  "summary_path = ''github_issues_summary.json''"

text \<open>
  \<open>main()\<close> from the point where \<open>tasks_data\<close> is known. The variable \<open>milestone_urls\<close>
  is bound only if \<open>'milestones' in tasks_data\<close>, and read only then.
\<close>

definition main_with :: "env \<Rightarrow> pyval \<Rightarrow> world \<Rightarrow> (exn + unit) \<times> world" where
  "main_with E tasks_data w =
     (case dict_get tasks_data ''project'' (Str ''Unknown Project'') of
        Inl e \<Rightarrow> (Inl e, w)
      | Inr project \<Rightarrow>
     (case dict_get tasks_data ''owner'' (Str ''Unknown Owner'') of
        Inl e \<Rightarrow> (Inl e, w)
      | Inr owner \<Rightarrow>
     (let project_info = Dict [(''project'', project), (''owner'', owner)];
          w1 = print (''Creating GitHub issues for: '' @ py_str E project) w;
          w2 = print (''Owner: '' @ py_str E owner) w1;
          w3 = print (replicate 50 CHR ''='') w2
      in case dict_get tasks_data ''phases'' (List []) of
           Inl e \<Rightarrow> (Inl e, w3)
         | Inr phases \<Rightarrow>
     (case phase_loop E project_info (py_iter phases) [] w3 of
        (Inl e, w4) \<Rightarrow> (Inl e, w4)
      | (Inr created_issues, w4) \<Rightarrow>
     (let has_milestones = py_in ''milestones'' tasks_data
      in case (if has_milestones
               then (case subscript tasks_data ''milestones'' of
                       Inl e \<Rightarrow> (Inl e, print (nl # ''Creating milestone issues...'') w4)
                     | Inr milestones \<Rightarrow>
                         create_milestone_issues E milestones project_info
                           (print (nl # ''Creating milestone issues...'') w4))
               else (Inr [], w4)) of
           (Inl e, w5) \<Rightarrow> (Inl e, w5)
         | (Inr milestone_urls, w5) \<Rightarrow>
     (let w6 = print (nl # replicate 50 CHR ''='') w5;
          w7 = print (''Summary: Created '' @ str_nat (length created_issues) @ '' task issues'') w6;
          w8 = (if has_milestones
                then print (''Created '' @ str_nat (length milestone_urls) @ '' milestone issues'') w7
                else w7);
          summary = Dict [(''project'', project_info),
                          (''created_issues'', List created_issues),
                          (''milestone_urls'', List (map Str milestone_urls))];
          w9 = json_dump summary_path summary w8;
          w10 = print (nl # ''Summary saved to: github_issues_summary.json'') w9;
          w11 = print ''Repository: https://github.com/dylan-mccarthy/Scalable-Process-Agent-System'' w10
      in (Inr (), w11)))))))"

definition main :: "env \<Rightarrow> world \<Rightarrow> (exn + unit) \<times> world" where
  "main E w =
     (case parse_yaml_tasks ''tasks.yaml'' w of
        (Inl e, w1) \<Rightarrow> (Inl e, w1)
      | (Inr tasks_data, w1) \<Rightarrow> main_with E tasks_data w1)"

text \<open>
  The exit status of the process that runs \<open>main()\<close>: 0 when it returns, the status of a
  \<open>SystemExit\<close>, 1 for any other exception, which nothing catches.
\<close>

definition exit_status :: "exn + unit \<Rightarrow> int" where
  "exit_status r = (case r of Inr _ \<Rightarrow> 0 | Inl (SystemExit n) \<Rightarrow> n | Inl _ \<Rightarrow> 1)"

definition run_script :: "env \<Rightarrow> world \<Rightarrow> int \<times> world" where
  "run_script E w = (case main E w of (r, w1) \<Rightarrow> (exit_status r, w1))"

section \<open>Definitions for the statements\<close>

text \<open>
  The label lookup as the specification describes it: an ordered table of pairs of a
  marker and a label trio, tested in order; the first marker that occurs in the phase
  name gives the trio, and no marker gives the base label alone.
\<close>

definition epic_table :: "(string \<times> string list) list" where
  "epic_table =
    [(''Epic 1'', [''epic-1'', ''control-plane'', ''api'']),
     (''Epic 2'', [''epic-2'', ''node-runtime'', ''connectors'']),
     (''Epic 3'', [''epic-3'', ''agent-definition'', ''deployment'']),
     (''Epic 4'', [''epic-4'', ''observability'', ''monitoring'']),
     (''Epic 5'', [''epic-5'', ''ui'', ''frontend'']),
     (''Epic 6'', [''epic-6'', ''infrastructure'', ''ci-cd'']),
     (''Epic 7'', [''epic-7'', ''testing'', ''validation'']),
     (''Epic 8'', [''epic-8'', ''documentation'', ''demo''])]"

definition first_match_labels :: "string \<Rightarrow> string list" where
  "first_match_labels phase_name =
     ''task'' # (case find (\<lambda>entry. contains (fst entry) phase_name) epic_table of
                   None \<Rightarrow> [] | Some entry \<Rightarrow> snd entry)"

text \<open>The shapes of the dictionaries the extractor builds.\<close>

definition mk_task :: "string \<Rightarrow> string \<Rightarrow> string \<Rightarrow> pyval" where
  "mk_task i t d = Dict [(''id'', Str i), (''title'', Str t), (''description'', Str d)]"

definition mk_milestone :: "string \<Rightarrow> string \<Rightarrow> string \<Rightarrow> string \<Rightarrow> pyval" where
  "mk_milestone i t dl dt =
     Dict [(''id'', Str i), (''title'', Str t), (''deliverables'', Str dl), (''date'', Str dt)]"

text \<open>The dictionary \<open>project_info\<close> of \<open>main\<close> and the dictionary of a phase.\<close>

definition mk_info :: "string \<Rightarrow> string \<Rightarrow> pyval" where
  "mk_info p ow = Dict [(''project'', Str p), (''owner'', Str ow)]"

definition mk_phase :: "string \<Rightarrow> string \<Rightarrow> pyval list \<Rightarrow> pyval" where
  "mk_phase n g ts = Dict [(''name'', Str n), (''goal'', Str g), (''tasks'', List ts)]"

text \<open>\<open>d[key]\<close> where the key is known to be in \<open>d\<close>.\<close>

definition item :: "pyval \<Rightarrow> string \<Rightarrow> pyval" where
  "item d key = (case subscript d key of Inr v \<Rightarrow> v | Inl e \<Rightarrow> Str [])"

text \<open>The argument vector of a submission whose fields can all be read.\<close>

definition the_cmd :: "exn + string list \<Rightarrow> string list" where
  "the_cmd r = (case r of Inr cmd \<Rightarrow> cmd | Inl e \<Rightarrow> [])"

text \<open>The argument vector built for a milestone.\<close>

definition milestone_cmd :: "env \<Rightarrow> pyval \<Rightarrow> pyval \<Rightarrow> exn + string list" where
  "milestone_cmd E milestone project_info =
     ebind (milestone_title E milestone) (\<lambda>title.
     ebind (milestone_body E milestone project_info) (\<lambda>body.
     Inr (gh_cmd title body milestone_labels)))"

text \<open>What \<open>create_github_issue\<close> returns or raises for an outcome of the command.\<close>

definition submit_result :: "run_result \<Rightarrow> exn + string option" where
  "submit_result r = (case r of NotStarted e \<Rightarrow> Inl (LaunchError e)
     | Completed rc out err \<Rightarrow> Inr (if rc = 0 then Some (strip out) else None))"

text \<open>
  The records added to \<open>created_issues\<close> for a task and the outcome of its submission:
  one if the command ended with status 0 and printed a URL, none otherwise.
\<close>

definition task_record :: "pyval \<Rightarrow> run_result \<Rightarrow> pyval list" where
  "task_record task r =
     (case r of
        Completed rc out err \<Rightarrow>
          if rc = 0 \<and> strip out \<noteq> []
          then [Dict [(''task_id'', item task ''id''), (''title'', item task ''title''),
                      (''url'', Str (strip out))]]
          else []
      | NotStarted e \<Rightarrow> [])"

text \<open>The records of a sequence of submissions of tasks, run in order after the invocations \<open>h\<close>.\<close>

fun created_records :: "env \<Rightarrow> string list list \<Rightarrow> (pyval \<times> string list) list \<Rightarrow> pyval list" where
  "created_records E h [] = []"
| "created_records E h (tc # rest) =
     task_record (fst tc) (gh E h (snd tc)) @ created_records E (h @ [snd tc]) rest"

text \<open>The command could be started.\<close>

definition started :: "run_result \<Rightarrow> bool" where
  "started r = (case r of Completed rc out err \<Rightarrow> True | NotStarted e \<Rightarrow> False)"

text \<open>Every command of a sequence, run in order after the invocations \<open>h\<close>, could be started.\<close>

fun all_started :: "env \<Rightarrow> string list list \<Rightarrow> string list list \<Rightarrow> bool" where
  "all_started E h [] = True"
| "all_started E h (cmd # rest) = (started (gh E h cmd) \<and> all_started E (h @ [cmd]) rest)"

text \<open>The values of the shapes the extractor builds.\<close>

definition is_task :: "pyval \<Rightarrow> bool" where
  "is_task v \<longleftrightarrow> (\<exists>i t d. v = mk_task i t d)"

text \<open>The tasks of one phase, each with its argument vector, in order.\<close>

definition task_cmds :: "env \<Rightarrow> pyval \<Rightarrow> pyval \<Rightarrow> pyval list \<Rightarrow> (pyval \<times> string list) list" where
  "task_cmds E phase_name pinfo ts =
     map (\<lambda>task. (task, the_cmd (issue_cmd E task phase_name pinfo))) ts"

definition is_phase :: "pyval \<Rightarrow> bool" where
  "is_phase v \<longleftrightarrow> (\<exists>n g ts. v = mk_phase n g ts \<and> (\<forall>task \<in> set ts. is_task task))"

definition is_milestone :: "pyval \<Rightarrow> bool" where
  "is_milestone v \<longleftrightarrow> (\<exists>i t dl dt. v = mk_milestone i t dl dt)"

text \<open>
  The tasks of all phases with their argument vectors: phases in order, and the tasks of
  each phase in order.
\<close>

definition task_submissions :: "env \<Rightarrow> pyval \<Rightarrow> pyval list \<Rightarrow> (pyval \<times> string list) list" where
  "task_submissions E pinfo phases =
     concat (map (\<lambda>phase. task_cmds E (item phase ''name'') pinfo (py_iter (item phase ''tasks'')))
               phases)"

text \<open>The argument vectors of the milestones, in order.\<close>

definition milestone_cmds :: "env \<Rightarrow> pyval \<Rightarrow> pyval list \<Rightarrow> string list list" where
  "milestone_cmds E pinfo ms = map (\<lambda>milestone. the_cmd (milestone_cmd E milestone pinfo)) ms"

text \<open>The URLs added to \<open>milestone_urls\<close> for an outcome: one if the command ended with status 0.\<close>

definition milestone_url :: "run_result \<Rightarrow> string list" where
  "milestone_url r =
     (case r of Completed rc out err \<Rightarrow> if rc = 0 then [strip out] else []
      | NotStarted e \<Rightarrow> [])"

text \<open>The URLs of a sequence of submissions of milestones, run in order after the invocations \<open>h\<close>.\<close>

fun created_urls :: "env \<Rightarrow> string list list \<Rightarrow> string list list \<Rightarrow> string list" where
  "created_urls E h [] = []"
| "created_urls E h (cmd # rest) = milestone_url (gh E h cmd) @ created_urls E (h @ [cmd]) rest"

text \<open>The project context of a document.\<close>

definition project_context :: "string \<Rightarrow> pyval" where
  "project_context content =
     mk_info (field_value (re_search (field_re ''project:'') content))
             (field_value (re_search (field_re ''owner:'') content))"

text \<open>All commands of a run on a document: those of the tasks, then those of the milestones.\<close>

definition run_cmds :: "env \<Rightarrow> string \<Rightarrow> string list list" where
  "run_cmds E content =
     map snd (task_submissions E (project_context content) (phases_of content))
     @ milestone_cmds E (project_context content) (milestones_of content)"

text \<open>The summary of a run on a document that starts after the invocations \<open>h\<close>.\<close>

definition summary_of :: "env \<Rightarrow> string list list \<Rightarrow> string \<Rightarrow> pyval" where
  "summary_of E h content =
     Dict [(''project'', project_context content),
           (''created_issues'',
              List (created_records E h
                      (task_submissions E (project_context content) (phases_of content)))),
           (''milestone_urls'',
              List (map Str (created_urls E
                      (h @ map snd (task_submissions E (project_context content) (phases_of content)))
                      (milestone_cmds E (project_context content) (milestones_of content)))))]"

section \<open>Documents and environments of the examples\<close>

text \<open>A document with one phase of three tasks, and no \<open>project:\<close> or \<open>owner:\<close> line.\<close>

definition three_tasks_doc :: string where
  "three_tasks_doc = ''phases:\<newline>#\<newline>  - name: Epic 3\<newline>    tasks:\<newline>#\<newline>      - id: A\<newline>        title: a\<newline>      - id: B\<newline>        title: b\<newline>      - id: C\<newline>        title: c\<newline>''"

text \<open>A document with two phases, three tasks and two milestones.\<close>

definition demo_doc :: string where
  "demo_doc = ''project: Demo\<newline>owner: Team\<newline>phases:\<newline>#\<newline>  - name: Epic 1\<newline>    tasks:\<newline>#\<newline>      - id: A\<newline>        title: a\<newline>  - name: Epic 2\<newline>    tasks:\<newline>#\<newline>      - id: B\<newline>        title: b\<newline>      - id: C\<newline>        title: c\<newline>milestones:\<newline>#\<newline>  - id: M1\<newline>    title: m1\<newline>    description: x\<newline>  - id: M2\<newline>    title: m2\<newline>''"

text \<open>A document whose records follow their section headers directly.\<close>

definition plain_doc :: string where
  "plain_doc = ''phases:\<newline>  - name: Setup\<newline>    tasks:\<newline>      - id: S1\<newline>        title: s1\<newline>      - id: S2\<newline>        title: s2\<newline>  - name: Build\<newline>    tasks:\<newline>      - id: B1\<newline>        title: b1\<newline>      - id: B2\<newline>        title: b2\<newline>milestones:\<newline>  - id: M1\<newline>    title: m1\<newline>  - id: M2\<newline>    title: m2\<newline>''"

text \<open>
  An environment in which the invocation number \<open>k\<close> of the command (counted from 1) ends
  with status 1, and every other one ends with status 0 and prints a URL that carries its
  number.
\<close>

definition failing_env :: "nat \<Rightarrow> env" where
  "failing_env k = \<lparr>gh = (\<lambda>h cmd. if Suc (length h) = k then Completed 1 [] ''boom''
                                else Completed 0 (''https://gh.test/'' @ str_nat (Suc (length h)) @ [nl]) []),
                  cpe_str = (\<lambda>cmd rc. ''Command returned non-zero exit status''),
                  py_repr = (\<lambda>v. ''?'')\<rparr>"

text \<open>
  A world in which \<open>tasks.yaml\<close> holds the given text, and in which a summary file of an
  earlier run exists.
\<close>

definition world_with :: "string \<Rightarrow> world" where
  "world_with content = \<lparr>text_files = (\<lambda>path. if path = ''tasks.yaml'' then Inr content
                                        else Inl ''[Errno 2] No such file or directory''),
                         json_files = (\<lambda>path. if path = summary_path then Some (Dict [(''stale'', Str ''x'')]) else None),
                         printed = [], calls = []\<rparr>"

text \<open>A world without any file.\<close>

definition no_file_world :: world where
  "no_file_world = \<lparr>text_files = (\<lambda>path. Inl (''[Errno 2] No such file or directory: '' @ [CHR 0x27] @ path @ [CHR 0x27])),
                    json_files = (\<lambda>path. None), printed = [], calls = []\<rparr>"

text \<open>
  A document whose first task and first milestone follow the lines \<open>tasks:\<close> and
  \<open>milestones:\<close> directly.
\<close>

definition first_record_doc :: string where
  "first_record_doc = ''phases:\<newline>#\<newline>  - name: Setup\<newline>    tasks:\<newline>      - id: S1\<newline>        title: s1\<newline>      - id: S2\<newline>        title: s2\<newline>milestones:\<newline>  - id: M1\<newline>    title: m1\<newline>  - id: M2\<newline>    title: m2\<newline>''"

text \<open>
  A line of a field, in the words of the specification: a line of the document that
  begins, after its indentation, with the key and its colon. \<open>line_starts\<close> are the
  parts of the text from the start of each line on.
\<close>

fun after_newlines :: "string \<Rightarrow> string list" where
  "after_newlines [] = []"
| "after_newlines (c # cs) = (if c = nl then [cs] else []) @ after_newlines cs"

definition line_starts :: "string \<Rightarrow> string list" where
  "line_starts content = content # after_newlines content"

definition has_field_line :: "string \<Rightarrow> string \<Rightarrow> bool" where
  "has_field_line key content =
     list_ex (\<lambda>line. starts_with key (dropWhile (\<lambda>c. is_space c \<and> c \<noteq> nl) line))
       (line_starts content)"

text \<open>
  A document without a line of the field \<open>project\<close>, in which the text \<open>project:\<close>
  occurs inside the goal of a phase.
\<close>

definition goal_doc :: string where
  "goal_doc = ''owner: Team\<newline>phases:\<newline>#\<newline>  - name: Epic 1\<newline>    goal: finish the project: soon\<newline>''"

section \<open>Properties of strings and of the label lookup\<close>

lemma starts_with_append: "starts_with (p @ q) s \<Longrightarrow> starts_with p s"
  unfolding starts_with_def
  by (metis append_eq_conv_conj length_append take_take min_def le_add1)

lemma contains_append_left: "contains (p @ q) s \<Longrightarrow> contains p s"
  by (induction s) (auto dest: starts_with_append)

text \<open>
  Claim C4. The title of the issue of a task with id \<open>i\<close> and title \<open>t\<close> is
  \<open>[i] t\<close>, and the title of the issue of a milestone with title \<open>t\<close> is
  \<open>[MILESTONE] t\<close>; so the task E2-T4 "Build connector" gives "[E2-T4] Build connector"
  and the milestone "Phase 1 complete" gives "[MILESTONE] Phase 1 complete".
\<close>

theorem C4_title_format:
  "issue_title E (mk_task i t d) = Inr (''['' @ i @ ''] '' @ t)
   \<and> milestone_title E (mk_milestone i t dl dt) = Inr (''[MILESTONE] '' @ t)
   \<and> issue_title E (mk_task ''E2-T4'' ''Build connector'' d) = Inr ''[E2-T4] Build connector''
   \<and> milestone_title E (mk_milestone i ''Phase 1 complete'' dl dt)
       = Inr ''[MILESTONE] Phase 1 complete''"
  by (simp add: issue_title_def milestone_title_def item_str_def ebind_def
        mk_task_def mk_milestone_def)

text \<open>
  Claim C3, as stated, fails: a phase name that contains "Epic 3" and also "Epic 1" gets
  the labels of "Epic 1".
\<close>

theorem C3_counterexample:
  "contains ''Epic 3'' ''Epic 3 (after Epic 1)''
   \<and> set (issue_labels (Str ''Epic 3 (after Epic 1)''))
       \<noteq> {''task'', ''epic-3'', ''agent-definition'', ''deployment''}"
proof -
  have "issue_labels (Str ''Epic 3 (after Epic 1)'') = [''task'', ''epic-1'', ''control-plane'', ''api'']"
    by (simp add: issue_labels_def starts_with_def)
  moreover have "''epic-1'' \<notin> {''task'', ''epic-3'', ''agent-definition'', ''deployment''}"
    by simp
  moreover have "contains ''Epic 3'' ''Epic 3 (after Epic 1)''"
    by (simp add: starts_with_def)
  ultimately show ?thesis
    by (metis list.set_intros(1) list.set_intros(2))
qed

text \<open>
  Claim C3, amended. For a phase name that contains "Epic 3" and neither "Epic 1" nor
  "Epic 2" the labels are task, epic-3, agent-definition, deployment; for a phase name
  that contains none of the markers "Epic 1" to "Epic 8" the only label is task; the
  label argument of every milestone issue is "milestone,epic", the labels milestone and
  epic joined.
\<close>

theorem C3_label_lookup:
  "(contains ''Epic 3'' n \<and> \<not> contains ''Epic 1'' n \<and> \<not> contains ''Epic 2'' n
      \<longrightarrow> issue_labels (Str n) = [''task'', ''epic-3'', ''agent-definition'', ''deployment''])
   \<and> ((\<forall>m \<in> set (map fst epic_table). \<not> contains m n) \<longrightarrow> issue_labels (Str n) = [''task''])
   \<and> milestone_labels = join '','' [''milestone'', ''epic'']"
  by (simp add: issue_labels_def epic_table_def milestone_labels_def)

theorem C3_label_lookup_witness:
  "contains ''Epic 3'' ''Epic 3 - Agents'' \<and> \<not> contains ''Epic 1'' ''Epic 3 - Agents''
   \<and> \<not> contains ''Epic 2'' ''Epic 3 - Agents''
   \<and> issue_labels (Str ''Epic 3 - Agents'') = [''task'', ''epic-3'', ''agent-definition'', ''deployment'']
   \<and> list_all (\<lambda>m. \<not> contains m ''Setup'') (map fst epic_table)
   \<and> issue_labels (Str ''Setup'') = [''task'']"
  using C3_label_lookup [of "''Epic 3 - Agents''"] C3_label_lookup [of "''Setup''"]
  by (simp add: starts_with_def epic_table_def)

text \<open>
  Claim C8. The labels of a task are those of the ordered table of the markers "Epic 1"
  to "Epic 8", the first marker that occurs in the phase name winning; a phase name that
  contains "Epic 10" contains "Epic 1" and gets task, epic-1, control-plane, api.
\<close>

theorem C8_first_match_wins:
  "issue_labels (Str n) = first_match_labels n
   \<and> map fst epic_table = [''Epic 1'', ''Epic 2'', ''Epic 3'', ''Epic 4'', ''Epic 5'',
        ''Epic 6'', ''Epic 7'', ''Epic 8'']
   \<and> (contains ''Epic 10'' n
        \<longrightarrow> issue_labels (Str n) = [''task'', ''epic-1'', ''control-plane'', ''api''])"
  using contains_append_left [of "''Epic 1''" "''0''" n]
  by (simp add: issue_labels_def first_match_labels_def epic_table_def)

theorem C8_first_match_wins_witness:
  "contains ''Epic 10'' ''Epic 10 - Later''
   \<and> issue_labels (Str ''Epic 10 - Later'') = [''task'', ''epic-1'', ''control-plane'', ''api'']
   \<and> issue_labels (Str ''Epic 10 - Later'') = first_match_labels ''Epic 10 - Later''"
proof -
  have c: "contains ''Epic 10'' ''Epic 10 - Later''"
    by (simp add: starts_with_def)
  from C8_first_match_wins [of "''Epic 10 - Later''"] c show ?thesis
    by blast
qed

section \<open>Properties of a run\<close>

lemma issue_title_mk [simp]: "issue_title E (mk_task i t d) = Inr (''['' @ i @ ''] '' @ t)"
  by (simp add: issue_title_def item_str_def ebind_def mk_task_def)

lemma issue_body_mk: "\<exists>b. issue_body E (mk_task i t d) pn (mk_info p ow) = Inr b"
  by (simp add: issue_body_def item_str_def ebind_def mk_task_def mk_info_def)

lemma create_github_issue_mk:
  assumes "task = mk_task i t d" "pinfo = mk_info p ow"
  shows "\<exists>w'. create_github_issue E task pn pinfo w
            = (submit_result (gh E (calls w) (the_cmd (issue_cmd E task pn pinfo))), w')
          \<and> calls w' = calls w @ [the_cmd (issue_cmd E task pn pinfo)]
          \<and> json_files w' = json_files w \<and> text_files w' = text_files w"
proof -
  obtain b where b: "issue_body E task pn pinfo = Inr b"
    using issue_body_mk assms by blast
  have t: "issue_title E task = Inr (''['' @ i @ ''] '' @ t)"
    using assms by simp
  have c: "the_cmd (issue_cmd E task pn pinfo) = gh_cmd (''['' @ i @ ''] '' @ t) b (join '','' (issue_labels pn))"
    by (simp add: issue_cmd_def the_cmd_def b t ebind_def)
  show ?thesis
    unfolding c
    by (cases "gh E (calls w) (gh_cmd (''['' @ i @ ''] '' @ t) b (join '','' (issue_labels pn)))")
       (simp_all add: create_github_issue_def b t run_def submit_result_def print_def
          print_failure_def Let_def)
qed

lemma created_record_mk [simp]:
  "created_record (mk_task i t d) u = Inr (Dict [(''task_id'', Str i), (''title'', Str t), (''url'', Str u)])"
  by (simp add: created_record_def mk_task_def ebind_def)

lemma item_mk_task [simp]: "item (mk_task i t d) ''id'' = Str i" "item (mk_task i t d) ''title'' = Str t"
  by (simp_all add: item_def mk_task_def)

lemma task_loop_char:
  assumes "\<forall>task \<in> set ts. is_task task" and "pinfo = mk_info p ow"
  shows "\<exists>r w'. task_loop E pn pinfo ts created w = (r, w')
           \<and> json_files w' = json_files w \<and> text_files w' = text_files w
           \<and> (if all_started E (calls w) (map snd (task_cmds E pn pinfo ts))
               then r = Inr (created @ created_records E (calls w) (task_cmds E pn pinfo ts))
                    \<and> calls w' = calls w @ map snd (task_cmds E pn pinfo ts)
               else (\<exists>e. r = Inl (LaunchError e)))"
  using assms(1)
proof (induction ts arbitrary: created w)
  case Nil
  then show ?case by (simp add: task_cmds_def)
next
  case (Cons task rest)
  then obtain i t d where task: "task = mk_task i t d"
    by (auto simp: is_task_def)
  let ?cmd = "the_cmd (issue_cmd E task pn pinfo)"
  obtain w1 where w1: "create_github_issue E task pn pinfo w = (submit_result (gh E (calls w) ?cmd), w1)"
      "calls w1 = calls w @ [?cmd]" "json_files w1 = json_files w" "text_files w1 = text_files w"
    using create_github_issue_mk [OF task assms(2)] by blast
  have rest: "\<forall>task \<in> set rest. is_task task"
    using Cons.prems by simp
  show ?case
  proof (cases "gh E (calls w) ?cmd")
    case (NotStarted e)
    then show ?thesis
      using w1 by (simp add: submit_result_def task_cmds_def started_def)
  next
    case (Completed rc out err)
    show ?thesis
    proof (cases "rc = 0 \<and> strip out \<noteq> []")
      case True
      let ?r = "Dict [(''task_id'', Str i), (''title'', Str t), (''url'', Str (strip out))]"
      from Cons.IH [OF rest, of "created @ [?r]" w1]
      obtain r w' where IH: "task_loop E pn pinfo rest (created @ [?r]) w1 = (r, w')"
        "json_files w' = json_files w1" "text_files w' = text_files w1"
        "if all_started E (calls w1) (map snd (task_cmds E pn pinfo rest))
         then r = Inr ((created @ [?r]) @ created_records E (calls w1) (task_cmds E pn pinfo rest))
              \<and> calls w' = calls w1 @ map snd (task_cmds E pn pinfo rest)
         else (\<exists>e. r = Inl (LaunchError e))"
        by blast
      have step: "task_loop E pn pinfo (task # rest) created w = (r, w')"
        using w1(1) Completed True IH(1) by (simp add: submit_result_def task)
      show ?thesis
        using step IH(2-4) w1(2-4) Completed True
        by (auto simp: task_cmds_def started_def task_record_def task split: if_splits)
    next
      case False
      from Cons.IH [OF rest, of created w1]
      obtain r w' where IH: "task_loop E pn pinfo rest created w1 = (r, w')"
        "json_files w' = json_files w1" "text_files w' = text_files w1"
        "if all_started E (calls w1) (map snd (task_cmds E pn pinfo rest))
         then r = Inr (created @ created_records E (calls w1) (task_cmds E pn pinfo rest))
              \<and> calls w' = calls w1 @ map snd (task_cmds E pn pinfo rest)
         else (\<exists>e. r = Inl (LaunchError e))"
        by blast
      have step: "task_loop E pn pinfo (task # rest) created w = (r, w')"
        using w1(1) Completed False IH(1) by (auto simp: submit_result_def)
      show ?thesis
        using step IH(2-4) w1(2-4) Completed False
        by (auto simp: task_cmds_def started_def task_record_def split: if_splits)
    qed
  qed
qed

lemma created_records_append:
  "created_records E h (a @ b) = created_records E h a @ created_records E (h @ map snd a) b"
  by (induction a arbitrary: h) auto

lemma all_started_append:
  "all_started E h (a @ b) \<longleftrightarrow> all_started E h a \<and> all_started E (h @ a) b"
  by (induction a arbitrary: h) auto

lemma item_mk_phase [simp]:
  "item (mk_phase n g ts) ''name'' = Str n" "item (mk_phase n g ts) ''tasks'' = List ts"
  by (simp_all add: item_def mk_phase_def)

lemma phase_loop_char:
  assumes "\<forall>phase \<in> set phs. is_phase phase" and "pinfo = mk_info p ow"
  shows "\<exists>r w'. phase_loop E pinfo phs created w = (r, w')
           \<and> json_files w' = json_files w \<and> text_files w' = text_files w
           \<and> (if all_started E (calls w) (map snd (task_submissions E pinfo phs))
               then r = Inr (created @ created_records E (calls w) (task_submissions E pinfo phs))
                    \<and> calls w' = calls w @ map snd (task_submissions E pinfo phs)
               else (\<exists>e. r = Inl (LaunchError e)))"
  using assms(1)
proof (induction phs arbitrary: created w)
  case Nil
  then show ?case by (simp add: task_submissions_def)
next
  case (Cons phase rest)
  then obtain n g ts where phase: "phase = mk_phase n g ts" and ts: "\<forall>task \<in> set ts. is_task task"
    by (auto simp: is_phase_def)
  have rest: "\<forall>phase \<in> set rest. is_phase phase"
    using Cons.prems by simp
  let ?w2 = "print (''Goal: '' @ g) (print (nl # ''Processing phase: '' @ n) w)"
  let ?tc = "task_cmds E (Str n) pinfo ts"
  have subs: "task_submissions E pinfo (phase # rest) = ?tc @ task_submissions E pinfo rest"
    by (simp add: task_submissions_def phase)
  have w2: "calls ?w2 = calls w" "json_files ?w2 = json_files w" "text_files ?w2 = text_files w"
    by (simp_all add: print_def)
  from task_loop_char [OF ts assms(2), of E "Str n" created ?w2]
  obtain r1 w3 where t: "task_loop E (Str n) pinfo ts created ?w2 = (r1, w3)"
    "json_files w3 = json_files w" "text_files w3 = text_files w"
    "if all_started E (calls w) (map snd ?tc)
     then r1 = Inr (created @ created_records E (calls w) ?tc) \<and> calls w3 = calls w @ map snd ?tc
     else (\<exists>e. r1 = Inl (LaunchError e))"
    using w2 by auto
  have unfold: "phase_loop E pinfo (phase # rest) created w =
      (case task_loop E (Str n) pinfo ts created ?w2 of
         (Inl e, w3) \<Rightarrow> (Inl e, w3)
       | (Inr created1, w3) \<Rightarrow> phase_loop E pinfo rest created1 w3)"
    by (simp add: phase mk_phase_def Let_def)
  show ?case
  proof (cases "all_started E (calls w) (map snd ?tc)")
    case False
    then obtain e where "r1 = Inl (LaunchError e)"
      using t(4) by auto
    then show ?thesis
      using unfold t(1-3) False by (simp add: subs all_started_append)
  next
    case True
    let ?c1 = "created @ created_records E (calls w) ?tc"
    have r1: "r1 = Inr ?c1" and c3: "calls w3 = calls w @ map snd ?tc"
      using t(4) True by auto
    from Cons.IH [OF rest, of ?c1 w3]
    obtain r w' where IH: "phase_loop E pinfo rest ?c1 w3 = (r, w')"
      "json_files w' = json_files w3" "text_files w' = text_files w3"
      "if all_started E (calls w3) (map snd (task_submissions E pinfo rest))
       then r = Inr (?c1 @ created_records E (calls w3) (task_submissions E pinfo rest))
            \<and> calls w' = calls w3 @ map snd (task_submissions E pinfo rest)
       else (\<exists>e. r = Inl (LaunchError e))"
      by blast
    have step: "phase_loop E pinfo (phase # rest) created w = (r, w')"
      using unfold t(1) r1 IH(1) by simp
    show ?thesis
      using step IH(2-4) t(2,3) c3 True
      by (auto simp: subs all_started_append created_records_append split: if_splits)
  qed
qed

lemma milestone_title_mk [simp]:
  "milestone_title E (mk_milestone i t dl dt) = Inr (''[MILESTONE] '' @ t)"
  by (simp add: milestone_title_def item_str_def ebind_def mk_milestone_def)

lemma milestone_body_mk: "\<exists>b. milestone_body E (mk_milestone i t dl dt) (mk_info p ow) = Inr b"
  by (simp add: milestone_body_def milestone_overview_def item_str_def ebind_def
        mk_milestone_def mk_info_def)

lemma created_urls_append:
  "created_urls E h (a @ b) = created_urls E h a @ created_urls E (h @ a) b"
  by (induction a arbitrary: h) auto

lemma milestone_loop_char:
  assumes "\<forall>milestone \<in> set ms. is_milestone milestone" and "pinfo = mk_info p ow"
  shows "\<exists>r w'. milestone_loop E pinfo ms urls w = (r, w')
           \<and> json_files w' = json_files w \<and> text_files w' = text_files w
           \<and> (if all_started E (calls w) (milestone_cmds E pinfo ms)
               then r = Inr (urls @ created_urls E (calls w) (milestone_cmds E pinfo ms))
                    \<and> calls w' = calls w @ milestone_cmds E pinfo ms
               else (\<exists>e. r = Inl (LaunchError e)))"
  using assms(1)
proof (induction ms arbitrary: urls w)
  case Nil
  then show ?case by (simp add: milestone_cmds_def)
next
  case (Cons milestone rest)
  then obtain i t dl dt where m: "milestone = mk_milestone i t dl dt"
    by (auto simp: is_milestone_def)
  have rest: "\<forall>milestone \<in> set rest. is_milestone milestone"
    using Cons.prems by simp
  obtain b where b: "milestone_body E milestone pinfo = Inr b"
    using milestone_body_mk m assms(2) by blast
  have t: "milestone_title E milestone = Inr (''[MILESTONE] '' @ t)"
    using m by simp
  let ?cmd = "gh_cmd (''[MILESTONE] '' @ t) b milestone_labels"
  have c: "the_cmd (milestone_cmd E milestone pinfo) = ?cmd"
    by (simp add: milestone_cmd_def the_cmd_def b t ebind_def)
  have cmds: "milestone_cmds E pinfo (milestone # rest) = ?cmd # milestone_cmds E pinfo rest"
    by (simp add: milestone_cmds_def c)
  show ?case
  proof (cases "gh E (calls w) ?cmd")
    case (NotStarted e)
    then show ?thesis
      by (simp add: cmds started_def b t run_def)
  next
    case (Completed rc out err)
    define w1 where "w1 = (if rc = 0
        then print (''  URL: '' @ strip out) (print (''Created milestone: '' @ ''[MILESTONE] '' @ t)
               (w\<lparr>calls := calls w @ [?cmd]\<rparr>))
        else print_failure E ''milestone'' (''[MILESTONE] '' @ t) ?cmd rc err (w\<lparr>calls := calls w @ [?cmd]\<rparr>))"
    have w1: "calls w1 = calls w @ [?cmd]" "json_files w1 = json_files w" "text_files w1 = text_files w"
      by (simp_all add: w1_def print_def print_failure_def Let_def)
    let ?u = "urls @ milestone_url (gh E (calls w) ?cmd)"
    have unfold: "milestone_loop E pinfo (milestone # rest) urls w = milestone_loop E pinfo rest ?u w1"
      using Completed by (simp add: b t run_def w1_def milestone_url_def Let_def)
    from Cons.IH [OF rest, of ?u w1]
    obtain r w' where IH: "milestone_loop E pinfo rest ?u w1 = (r, w')"
      "json_files w' = json_files w1" "text_files w' = text_files w1"
      "if all_started E (calls w1) (milestone_cmds E pinfo rest)
       then r = Inr (?u @ created_urls E (calls w1) (milestone_cmds E pinfo rest))
            \<and> calls w' = calls w1 @ milestone_cmds E pinfo rest
       else (\<exists>e. r = Inl (LaunchError e))"
      by blast
    show ?thesis
      using unfold IH w1 Completed
      by (auto simp: cmds started_def split: if_splits)
  qed
qed

lemma is_task_task_of_block: "is_task (task_of_block b)"
  unfolding is_task_def task_of_block_def mk_task_def by blast

lemma is_task_tasks_of_block: "task \<in> set (tasks_of_block b) \<Longrightarrow> is_task task"
  by (auto simp: tasks_of_block_def is_task_task_of_block split: option.splits)

lemma is_phase_phase_of_block: "is_phase (phase_of_block b)"
  unfolding is_phase_def phase_of_block_def mk_phase_def
  using is_task_tasks_of_block by blast

lemma is_phase_phases_of: "phase \<in> set (phases_of content) \<Longrightarrow> is_phase phase"
  by (auto simp: phases_of_def is_phase_phase_of_block split: option.splits)

lemma is_milestone_milestone_of_block: "is_milestone (milestone_of_block b)"
  unfolding is_milestone_def milestone_of_block_def mk_milestone_def by blast

lemma is_milestone_milestones_of: "m \<in> set (milestones_of content) \<Longrightarrow> is_milestone m"
  by (auto simp: milestones_of_def is_milestone_milestone_of_block split: option.splits)

lemma main_char:
  assumes "text_files w ''tasks.yaml'' = Inr content"
  shows "\<exists>r w'. main E w = (r, w') \<and> text_files w' = text_files w
           \<and> (if all_started E (calls w) (run_cmds E content)
               then r = Inr () \<and> calls w' = calls w @ run_cmds E content
                    \<and> json_files w' = (json_files w)(summary_path \<mapsto> summary_of E (calls w) content)
               else (\<exists>e. r = Inl (LaunchError e)) \<and> json_files w' = json_files w)"
proof -
  define p where "p = field_value (re_search (field_re ''project:'') content)"
  define ow where "ow = field_value (re_search (field_re ''owner:'') content)"
  define pinfo where "pinfo = mk_info p ow"
  define phs where "phs = phases_of content"
  define ms where "ms = milestones_of content"
  define subs where "subs = task_submissions E pinfo phs"
  define mc where "mc = milestone_cmds E pinfo ms"
  have pc: "project_context content = pinfo"
    by (simp add: project_context_def pinfo_def p_def ow_def)
  have td: "parse_content content =
      Dict [(''project'', Str p), (''owner'', Str ow), (''phases'', List phs), (''milestones'', List ms)]"
    by (simp add: parse_content_def p_def ow_def phs_def ms_def)
  have rc: "run_cmds E content = map snd subs @ mc"
    by (simp add: run_cmds_def pc subs_def mc_def phs_def ms_def)
  define w3 where "w3 = print (replicate 50 CHR ''='') (print (''Owner: '' @ ow)
      (print (''Creating GitHub issues for: '' @ p) w))"
  have w3: "calls w3 = calls w" "json_files w3 = json_files w" "text_files w3 = text_files w"
    by (simp_all add: w3_def print_def)
  have phs_ok: "\<forall>phase \<in> set phs. is_phase phase"
    using is_phase_phases_of phs_def by blast
  have ms_ok: "\<forall>m \<in> set ms. is_milestone m"
    using is_milestone_milestones_of ms_def by blast
  from phase_loop_char [OF phs_ok pinfo_def, of E "[]" w3]
  obtain r1 w4 where pl: "phase_loop E pinfo phs [] w3 = (r1, w4)"
    "json_files w4 = json_files w" "text_files w4 = text_files w"
    "if all_started E (calls w) (map snd subs)
     then r1 = Inr (created_records E (calls w) subs) \<and> calls w4 = calls w @ map snd subs
     else (\<exists>e. r1 = Inl (LaunchError e))"
    using w3 by (auto simp: subs_def)
  have m1: "main E w =
      (case phase_loop E pinfo phs [] w3 of
         (Inl e, w4) \<Rightarrow> (Inl e, w4)
       | (Inr created_issues, w4) \<Rightarrow>
           (case milestone_loop E pinfo ms [] (print (nl # ''Creating milestone issues...'') w4) of
              (Inl e, w5) \<Rightarrow> (Inl e, w5)
            | (Inr milestone_urls, w5) \<Rightarrow>
                (Inr (),
                 print ''Repository: https://github.com/dylan-mccarthy/Scalable-Process-Agent-System''
                  (print (nl # ''Summary saved to: github_issues_summary.json'')
                    (json_dump summary_path
                       (Dict [(''project'', pinfo), (''created_issues'', List created_issues),
                              (''milestone_urls'', List (map Str milestone_urls))])
                       (print (''Created '' @ str_nat (length milestone_urls) @ '' milestone issues'')
                         (print (''Summary: Created '' @ str_nat (length created_issues) @ '' task issues'')
                           (print (nl # replicate 50 CHR ''='') w5))))))))"
    by (simp add: main_def parse_yaml_tasks_def assms main_with_def td Let_def w3_def pinfo_def
          mk_info_def create_milestone_issues_def
        split: prod.splits sum.splits)
  show ?thesis
  proof (cases "all_started E (calls w) (map snd subs)")
    case False
    then obtain e where "r1 = Inl (LaunchError e)"
      using pl(4) by auto
    then show ?thesis
      using m1 pl(1-3) False by (simp add: rc all_started_append)
  next
    case True
    have r1: "r1 = Inr (created_records E (calls w) subs)" and c4: "calls w4 = calls w @ map snd subs"
      using pl(4) True by auto
    define w4' where "w4' = print (nl # ''Creating milestone issues...'') w4"
    have w4': "calls w4' = calls w @ map snd subs" "json_files w4' = json_files w"
      "text_files w4' = text_files w"
      by (simp_all add: w4'_def print_def c4 pl)
    from milestone_loop_char [OF ms_ok pinfo_def, of E "[]" w4']
    obtain r2 w5 where ml: "milestone_loop E pinfo ms [] w4' = (r2, w5)"
      "json_files w5 = json_files w" "text_files w5 = text_files w"
      "if all_started E (calls w @ map snd subs) mc
       then r2 = Inr (created_urls E (calls w @ map snd subs) mc)
            \<and> calls w5 = (calls w @ map snd subs) @ mc
       else (\<exists>e. r2 = Inl (LaunchError e))"
      using w4' by (auto simp: mc_def)
    show ?thesis
    proof (cases "all_started E (calls w @ map snd subs) mc")
      case False
      then obtain e where "r2 = Inl (LaunchError e)"
        using ml(4) by auto
      then show ?thesis
        using m1 pl(1) r1 ml(1-3) False True
        by (simp add: rc all_started_append w4'_def)
    next
      case started: True
      have r2: "r2 = Inr (created_urls E (calls w @ map snd subs) mc)"
        and c5: "calls w5 = calls w @ map snd subs @ mc"
        using ml(4) started by auto
      have s: "summary_of E (calls w) content =
          Dict [(''project'', pinfo), (''created_issues'', List (created_records E (calls w) subs)),
                (''milestone_urls'', List (map Str (created_urls E (calls w @ map snd subs) mc)))]"
        by (simp add: summary_of_def pc subs_def mc_def phs_def ms_def)
      show ?thesis
        using m1 pl(1) r1 ml(1-3) r2 c5 True started
        by (simp add: rc all_started_append w4'_def s print_def json_dump_def)
    qed
  qed
qed

section \<open>Failure isolation\<close>

text \<open>
  Claim C1. If the command of the submission of a task ends with a non-zero status,
  \<open>create_github_issue\<close> returns \<open>None\<close>, the loop goes on with the next task with
  \<open>created_issues\<close> unchanged, and the task adds no record. If the document can be read
  and every command can be started, the process ends with status 0, whatever the statuses
  of the commands, and the summary file holds the summary of the run, in which a failed
  submission has no record. In the example, a run of three tasks of which the second
  submission fails leaves exactly the records of the first and the third.
\<close>

theorem C1_failure_isolation:
  "(gh E (calls w) (the_cmd (issue_cmd E (mk_task i t d) pn (mk_info p ow))) = Completed rc out err
      \<and> rc \<noteq> 0
     \<longrightarrow> fst (create_github_issue E (mk_task i t d) pn (mk_info p ow) w) = Inr None
         \<and> task_loop E pn (mk_info p ow) (mk_task i t d # rest) created w
             = task_loop E pn (mk_info p ow) rest created
                 (snd (create_github_issue E (mk_task i t d) pn (mk_info p ow) w))
         \<and> task_record (mk_task i t d) (Completed rc out err) = [])
   \<and> (text_files w ''tasks.yaml'' = Inr content \<and> all_started E (calls w) (run_cmds E content)
     \<longrightarrow> run_script E w = (0, snd (main E w))
         \<and> json_files (snd (main E w)) summary_path = Some (summary_of E (calls w) content))"
proof (intro conjI impI)
  assume a: "gh E (calls w) (the_cmd (issue_cmd E (mk_task i t d) pn (mk_info p ow))) = Completed rc out err
      \<and> rc \<noteq> 0"
  obtain w1 where w1: "create_github_issue E (mk_task i t d) pn (mk_info p ow) w = (Inr None, w1)"
    using create_github_issue_mk [OF refl refl, of E i t d pn p ow w] a
    by (auto simp: submit_result_def)
  show "fst (create_github_issue E (mk_task i t d) pn (mk_info p ow) w) = Inr None"
    by (simp add: w1)
  show "task_loop E pn (mk_info p ow) (mk_task i t d # rest) created w
             = task_loop E pn (mk_info p ow) rest created
                 (snd (create_github_issue E (mk_task i t d) pn (mk_info p ow) w))"
    by (simp add: w1)
  show "task_record (mk_task i t d) (Completed rc out err) = []"
    using a by (simp add: task_record_def)
next
  assume a: "text_files w ''tasks.yaml'' = Inr content \<and> all_started E (calls w) (run_cmds E content)"
  from main_char [of w content E] a
  obtain w' where w': "main E w = (Inr (), w')"
    "json_files w' = (json_files w)(summary_path \<mapsto> summary_of E (calls w) content)"
    by auto
  show "run_script E w = (0, snd (main E w))"
    by (simp add: run_script_def w'(1) exit_status_def)
  show "json_files (snd (main E w)) summary_path = Some (summary_of E (calls w) content)"
    by (simp add: w')
qed

lemma three_tasks_started:
  "all_started (failing_env 2) [] (run_cmds (failing_env 2) three_tasks_doc)"
  by code_simp

lemma three_tasks_summary:
  "summary_of (failing_env 2) [] three_tasks_doc =
     Dict [(''project'', Dict [(''project'', Str []), (''owner'', Str [])]),
           (''created_issues'',
              List [Dict [(''task_id'', Str ''A''), (''title'', Str ''a''), (''url'', Str ''https://gh.test/1'')],
                    Dict [(''task_id'', Str ''C''), (''title'', Str ''c''), (''url'', Str ''https://gh.test/3'')]]),
           (''milestone_urls'', List [])]"
  by code_simp

lemma three_tasks_model:
  "phases_of three_tasks_doc =
     [mk_phase ''Epic 3'' [] [mk_task ''A'' ''a'' [], mk_task ''B'' ''b'' [], mk_task ''C'' ''c'' []]]"
  by code_simp

theorem C1_failure_isolation_witness:
  "fst (create_github_issue (failing_env 2) (mk_task ''B'' ''b'' []) (Str ''Epic 3'') (mk_info [] [])
          ((world_with three_tasks_doc)\<lparr>calls := [[''gh'']]\<rparr>)) = Inr None
   \<and> phases_of three_tasks_doc =
        [mk_phase ''Epic 3'' [] [mk_task ''A'' ''a'' [], mk_task ''B'' ''b'' [], mk_task ''C'' ''c'' []]]
   \<and> run_script (failing_env 2) (world_with three_tasks_doc)
        = (0, snd (main (failing_env 2) (world_with three_tasks_doc)))
   \<and> json_files (snd (main (failing_env 2) (world_with three_tasks_doc))) summary_path =
       Some (Dict [(''project'', Dict [(''project'', Str []), (''owner'', Str [])]),
           (''created_issues'',
              List [Dict [(''task_id'', Str ''A''), (''title'', Str ''a''), (''url'', Str ''https://gh.test/1'')],
                    Dict [(''task_id'', Str ''C''), (''title'', Str ''c''), (''url'', Str ''https://gh.test/3'')]]),
           (''milestone_urls'', List [])])"
proof -
  let ?E = "failing_env 2"
  let ?w = "world_with three_tasks_doc"
  let ?w1 = "?w\<lparr>calls := [[''gh'']]\<rparr>"
  have f: "text_files ?w ''tasks.yaml'' = Inr three_tasks_doc" and c: "calls ?w = []"
    by (simp_all add: world_with_def)
  have g: "gh ?E (calls ?w1) (the_cmd (issue_cmd ?E (mk_task ''B'' ''b'' []) (Str ''Epic 3'') (mk_info [] [])))
      = Completed 1 [] ''boom'' \<and> (1::int) \<noteq> 0"
    by (simp add: failing_env_def)
  have first: "fst (create_github_issue ?E (mk_task ''B'' ''b'' []) (Str ''Epic 3'') (mk_info [] []) ?w1)
      = Inr None"
    using C1_failure_isolation [of ?E ?w1 "''B''" "''b''" "[]" "Str ''Epic 3''" "[]" "[]" 1 "[]" "''boom''"] g
    by blast
  have h: "text_files ?w ''tasks.yaml'' = Inr three_tasks_doc
      \<and> all_started ?E (calls ?w) (run_cmds ?E three_tasks_doc)"
    using f three_tasks_started by (simp add: c)
  have second: "run_script ?E ?w = (0, snd (main ?E ?w))
      \<and> json_files (snd (main ?E ?w)) summary_path = Some (summary_of ?E (calls ?w) three_tasks_doc)"
    using C1_failure_isolation [of ?E ?w _ _ _ _ _ _ _ _ _ _ _ three_tasks_doc] h
    by blast
  show ?thesis
    using first second three_tasks_model three_tasks_summary
    by (simp add: c)
qed

section \<open>The fatal path\<close>

text \<open>
  Claim C5. If \<open>tasks.yaml\<close> cannot be read, the process prints the line
  "Error loading tasks file: " followed by the text of the exception and ends with status
  1; nothing else is printed, no command is run and no summary file is written.
\<close>

theorem C5_unreadable_document:
  "text_files w ''tasks.yaml'' = Inl msg \<Longrightarrow>
     run_script E w = (1, w\<lparr>printed := printed w @ [''Error loading tasks file: '' @ msg]\<rparr>)
     \<and> fst (run_script E w) \<noteq> 0
     \<and> json_files (snd (run_script E w)) = json_files w
     \<and> calls (snd (run_script E w)) = calls w"
  by (simp add: run_script_def main_def parse_yaml_tasks_def exit_status_def print_def)

theorem C5_unreadable_document_witness:
  "text_files no_file_world ''tasks.yaml''
     = Inl (''[Errno 2] No such file or directory: '' @ [CHR 0x27] @ ''tasks.yaml'' @ [CHR 0x27])
   \<and> fst (run_script (failing_env 0) no_file_world) = 1
   \<and> printed (snd (run_script (failing_env 0) no_file_world))
       = [''Error loading tasks file: [Errno 2] No such file or directory: '' @ [CHR 0x27] @ ''tasks.yaml'' @ [CHR 0x27]]
   \<and> json_files (snd (run_script (failing_env 0) no_file_world)) summary_path = None
   \<and> calls (snd (run_script (failing_env 0) no_file_world)) = []"
proof -
  have f: "text_files no_file_world ''tasks.yaml''
     = Inl (''[Errno 2] No such file or directory: '' @ [CHR 0x27] @ ''tasks.yaml'' @ [CHR 0x27])"
    by (simp add: no_file_world_def)
  from C5_unreadable_document [OF f, of "failing_env 0"] f show ?thesis
    by (simp add: no_file_world_def)
qed

section \<open>The summary of a run that completes\<close>

text \<open>
  Claim C6. If \<open>main\<close> returns, the document could be read, and afterwards the summary
  file holds the summary of the run, whatever it held before: the project context, the
  records of the tasks whose submission succeeded, in the order of the phases and of the
  tasks in each phase, and the URLs of the milestones whose submission succeeded, in
  their order. The commands run are those of the tasks, in that order, followed by those
  of the milestones.
\<close>

theorem C6_summary:
  "fst (main E w) = Inr () \<Longrightarrow>
     \<exists>content. text_files w ''tasks.yaml'' = Inr content
       \<and> json_files (snd (main E w)) = (json_files w)(summary_path \<mapsto> summary_of E (calls w) content)
       \<and> calls (snd (main E w)) = calls w @ run_cmds E content"
proof (cases "text_files w ''tasks.yaml''")
  case (Inl msg)
  assume "fst (main E w) = Inr ()"
  then show ?thesis
    using Inl by (simp add: main_def parse_yaml_tasks_def)
next
  case (Inr content)
  assume a: "fst (main E w) = Inr ()"
  from main_char [OF Inr, of E] a show ?thesis
    using Inr by (auto split: if_splits)
qed

lemma demo_started: "all_started (failing_env 2) [] (run_cmds (failing_env 2) demo_doc)"
  by code_simp

lemma demo_summary:
  "summary_of (failing_env 2) [] demo_doc =
     Dict [(''project'', Dict [(''project'', Str ''Demo''), (''owner'', Str ''Team'')]),
           (''created_issues'',
              List [Dict [(''task_id'', Str ''A''), (''title'', Str ''a''), (''url'', Str ''https://gh.test/1'')],
                    Dict [(''task_id'', Str ''C''), (''title'', Str ''c''), (''url'', Str ''https://gh.test/3'')]]),
           (''milestone_urls'', List [Str ''https://gh.test/4'', Str ''https://gh.test/5''])]"
  by code_simp

lemma demo_titles:
  "map (\<lambda>cmd. cmd ! 4) (run_cmds (failing_env 2) demo_doc)
     = [''[A] a'', ''[B] b'', ''[C] c'', ''[MILESTONE] m1'', ''[MILESTONE] m2'']"
  by code_simp

theorem C6_summary_witness:
  "fst (main (failing_env 2) (world_with demo_doc)) = Inr ()
   \<and> json_files (world_with demo_doc) summary_path = Some (Dict [(''stale'', Str ''x'')])
   \<and> json_files (snd (main (failing_env 2) (world_with demo_doc))) summary_path =
       Some (Dict [(''project'', Dict [(''project'', Str ''Demo''), (''owner'', Str ''Team'')]),
           (''created_issues'',
              List [Dict [(''task_id'', Str ''A''), (''title'', Str ''a''), (''url'', Str ''https://gh.test/1'')],
                    Dict [(''task_id'', Str ''C''), (''title'', Str ''c''), (''url'', Str ''https://gh.test/3'')]]),
           (''milestone_urls'', List [Str ''https://gh.test/4'', Str ''https://gh.test/5''])])
   \<and> map (\<lambda>cmd. cmd ! 4) (calls (snd (main (failing_env 2) (world_with demo_doc))))
       = [''[A] a'', ''[B] b'', ''[C] c'', ''[MILESTONE] m1'', ''[MILESTONE] m2'']"
proof -
  let ?E = "failing_env 2"
  let ?w = "world_with demo_doc"
  have f: "text_files ?w ''tasks.yaml'' = Inr demo_doc" and c: "calls ?w = []"
    and j: "json_files ?w summary_path = Some (Dict [(''stale'', Str ''x'')])"
    by (simp_all add: world_with_def)
  have completes: "fst (main ?E ?w) = Inr ()"
    using main_char [OF f, of ?E] demo_started by (auto simp: c)
  from C6_summary [OF completes] f
  have "json_files (snd (main ?E ?w)) = (json_files ?w)(summary_path \<mapsto> summary_of ?E (calls ?w) demo_doc)
       \<and> calls (snd (main ?E ?w)) = calls ?w @ run_cmds ?E demo_doc"
    by auto
  then show ?thesis
    using completes j demo_summary demo_titles by (simp add: c)
qed

section \<open>Properties of the extraction\<close>

text \<open>A key that does not occur in a text is not found by the pattern of its field.\<close>

lemma re_search_lit_none: "\<not> contains key s \<Longrightarrow> re_search (lit key k) s = None"
  by (induction s) (auto simp: lit_def starts_with_def)

lemma field_re_none: "\<not> contains key s \<Longrightarrow> re_search (field_re key) s = None"
  by (simp add: field_re_def re_search_lit_none)

text \<open>
  For the blocks that the loops process, a record is kept exactly if the extracted id and
  title are not empty, a phase exactly if the extracted name is not empty, and a field
  whose pattern does not match is the empty string.
\<close>

lemma id_and_title_task_of_block:
  "id_and_title (task_of_block b) \<longleftrightarrow>
     field_value (first_line_search b) \<noteq> [] \<and> field_value (re_search (field_re ''title:'') b) \<noteq> []"
  by (simp add: task_of_block_def)

lemma id_and_title_milestone_of_block:
  "id_and_title (milestone_of_block b) \<longleftrightarrow>
     field_value (first_line_search b) \<noteq> [] \<and> field_value (re_search (field_re ''title:'') b) \<noteq> []"
  by (simp add: milestone_of_block_def)

lemma has_name_phase_of_block:
  "has_name (phase_of_block b) \<longleftrightarrow> field_value (first_line_search b) \<noteq> []"
  by (simp add: phase_of_block_def)

lemma field_value_None: "field_value None = []"
  by (simp add: field_value_def)

text \<open>
  Claim C9. No milestone of the extracted model has a key \<open>description\<close>, so the
  overview of its issue is the placeholder "Milestone for project phase completion", and
  the body of the issue begins with the heading and the placeholder, whatever the
  document says.
\<close>

theorem C9_milestone_overview:
  "m \<in> set (milestones_of content) \<Longrightarrow>
     \<not> py_in ''description'' m
     \<and> milestone_overview E m = Inr ''Milestone for project phase completion''
     \<and> (\<exists>rest. milestone_body E m (mk_info p ow)
           = Inr (''## Milestone Overview\<newline>Milestone for project phase completion\<newline>\<newline>'' @ rest))"
proof -
  assume "m \<in> set (milestones_of content)"
  then obtain i t dl dt where m: "m = mk_milestone i t dl dt"
    using is_milestone_milestones_of is_milestone_def by blast
  show ?thesis
    unfolding m
    by (simp add: mk_milestone_def mk_info_def milestone_overview_def milestone_body_def
          item_str_def ebind_def)
qed

lemma demo_milestones:
  "milestones_of demo_doc = [mk_milestone ''M1'' ''m1'' [] [], mk_milestone ''M2'' ''m2'' [] []]"
  by code_simp

theorem C9_milestone_overview_witness:
  "contains ''description: x'' demo_doc
   \<and> milestones_of demo_doc = [mk_milestone ''M1'' ''m1'' [] [], mk_milestone ''M2'' ''m2'' [] []]
   \<and> \<not> py_in ''description'' (mk_milestone ''M1'' ''m1'' [] [])
   \<and> milestone_overview (failing_env 0) (mk_milestone ''M1'' ''m1'' [] [])
        = Inr ''Milestone for project phase completion''"
proof -
  have c: "contains ''description: x'' demo_doc"
    by code_simp
  have "mk_milestone ''M1'' ''m1'' [] [] \<in> set (milestones_of demo_doc)"
    by (simp add: demo_milestones)
  from C9_milestone_overview [OF this, of "failing_env 0"] c demo_milestones show ?thesis
    by simp
qed

text \<open>
  A text that has a line of a field contains the key of the field; so a text in which the
  key does not occur has no such line.
\<close>

lemma contains_suffix: "contains key ys \<Longrightarrow> contains key (xs @ ys)"
  by (induction xs) auto

lemma starts_with_contains: "starts_with key s \<Longrightarrow> contains key s"
  by (cases s) (auto simp: starts_with_def)

lemma after_newlines_suffix: "l \<in> set (after_newlines s) \<Longrightarrow> \<exists>pre. s = pre @ l"
proof (induction s)
  case Nil
  then show ?case by simp
next
  case (Cons c cs)
  then show ?case
    by (fastforce split: if_splits intro: exI [of _ "[c]"] exI [of _ "c # pre" for pre])
qed

lemma field_line_contains: "has_field_line key content \<Longrightarrow> contains key content"
proof -
  assume "has_field_line key content"
  then obtain l where l: "l \<in> set (line_starts content)"
      "starts_with key (dropWhile (\<lambda>c. is_space c \<and> c \<noteq> nl) l)"
    by (auto simp: has_field_line_def list_ex_iff)
  have "\<exists>pre. content = pre @ l"
    using l(1) after_newlines_suffix by (auto simp: line_starts_def)
  then obtain pre where pre: "content = pre @ l" by blast
  have "l = takeWhile (\<lambda>c. is_space c \<and> c \<noteq> nl) l @ dropWhile (\<lambda>c. is_space c \<and> c \<noteq> nl) l"
    by simp
  then have "contains key l"
    using l(2) starts_with_contains contains_suffix by metis
  then show ?thesis
    unfolding pre by (rule contains_suffix)
qed

text \<open>
  Claim C10, as stated, fails: the patterns of \<open>project\<close> and \<open>owner\<close> are searched in
  the whole text, not at the start of a line. This document has no line of the field
  \<open>project\<close>, and its project is "soon", taken from the goal of a phase.
\<close>

theorem C10_counterexample:
  "\<not> has_field_line ''project:'' goal_doc
   \<and> dict_get (parse_content goal_doc) ''project'' (Str ''Unknown Project'') = Inr (Str ''soon'')
   \<and> item (project_context goal_doc) ''project'' = Str ''soon''"
  by code_simp

text \<open>
  Claim C10, amended. \<open>tasks_data\<close> always has the keys \<open>project\<close> and \<open>owner\<close>, so the
  lookup with a default never gives the default ("Unknown Project", "Unknown Owner"): it
  gives the extracted field. If the text \<open>project:\<close> (or \<open>owner:\<close>) occurs nowhere in the
  document, the field of the project context is the empty string. A run that completes
  has written this project context to the summary, and has built every command with it.
\<close>

theorem C10_project_context_defaults:
  "dict_get (parse_content content) ''project'' dflt
      = Inr (Str (field_value (re_search (field_re ''project:'') content)))
   \<and> dict_get (parse_content content) ''owner'' dflt
      = Inr (Str (field_value (re_search (field_re ''owner:'') content)))
   \<and> (\<not> contains ''project:'' content \<longrightarrow> item (project_context content) ''project'' = Str [])
   \<and> (\<not> contains ''owner:'' content \<longrightarrow> item (project_context content) ''owner'' = Str [])
   \<and> (text_files w ''tasks.yaml'' = Inr content \<and> fst (main E w) = Inr ()
        \<longrightarrow> item (the (json_files (snd (main E w)) summary_path)) ''project'' = project_context content
          \<and> calls (snd (main E w))
              = calls w @ map snd (task_submissions E (project_context content) (phases_of content))
                  @ milestone_cmds E (project_context content) (milestones_of content))"
proof (intro conjI impI)
  show "dict_get (parse_content content) ''project'' dflt
      = Inr (Str (field_value (re_search (field_re ''project:'') content)))"
    by (simp add: parse_content_def)
  show "dict_get (parse_content content) ''owner'' dflt
      = Inr (Str (field_value (re_search (field_re ''owner:'') content)))"
    by (simp add: parse_content_def)
  show "item (project_context content) ''project'' = Str []" if "\<not> contains ''project:'' content"
    using that by (simp add: project_context_def mk_info_def item_def field_re_none field_value_def)
  show "item (project_context content) ''owner'' = Str []" if "\<not> contains ''owner:'' content"
    using that by (simp add: project_context_def mk_info_def item_def field_re_none field_value_def)
next
  assume a: "text_files w ''tasks.yaml'' = Inr content \<and> fst (main E w) = Inr ()"
  from main_char [of w content E] a
  have r: "json_files (snd (main E w)) = (json_files w)(summary_path \<mapsto> summary_of E (calls w) content)"
    "calls (snd (main E w)) = calls w @ run_cmds E content"
    by (auto split: if_splits)
  show "item (the (json_files (snd (main E w)) summary_path)) ''project'' = project_context content"
    by (simp add: r summary_of_def item_def)
  show "calls (snd (main E w))
              = calls w @ map snd (task_submissions E (project_context content) (phases_of content))
                  @ milestone_cmds E (project_context content) (milestones_of content)"
    by (simp add: r run_cmds_def)
qed

lemma three_tasks_no_context:
  "\<not> contains ''project:'' three_tasks_doc" "\<not> contains ''owner:'' three_tasks_doc"
  by code_simp+

theorem C10_project_context_defaults_witness:
  "\<not> contains ''project:'' three_tasks_doc \<and> \<not> contains ''owner:'' three_tasks_doc
   \<and> dict_get (parse_content three_tasks_doc) ''project'' (Str ''Unknown Project'') = Inr (Str [])
   \<and> dict_get (parse_content three_tasks_doc) ''owner'' (Str ''Unknown Owner'') = Inr (Str [])
   \<and> fst (main (failing_env 2) (world_with three_tasks_doc)) = Inr ()
   \<and> item (the (json_files (snd (main (failing_env 2) (world_with three_tasks_doc))) summary_path))
        ''project'' = Dict [(''project'', Str []), (''owner'', Str [])]"
proof -
  let ?E = "failing_env 2"
  let ?w = "world_with three_tasks_doc"
  have f: "text_files ?w ''tasks.yaml'' = Inr three_tasks_doc" and c: "calls ?w = []"
    by (simp_all add: world_with_def)
  have completes: "fst (main ?E ?w) = Inr ()"
    using main_char [OF f, of ?E] three_tasks_started by (auto simp: c)
  note C = C10_project_context_defaults [of three_tasks_doc _ ?w ?E]
  have p: "re_search (field_re ''project:'') three_tasks_doc = None"
      "re_search (field_re ''owner:'') three_tasks_doc = None"
    using three_tasks_no_context by (simp_all add: field_re_none)
  have ctx: "project_context three_tasks_doc = Dict [(''project'', Str []), (''owner'', Str [])]"
    by (simp add: project_context_def p field_value_def mk_info_def)
  show ?thesis
    using C [of "Str ''Unknown Project''"] C [of "Str ''Unknown Owner''"] f completes
      three_tasks_no_context
    by (simp add: p field_value_def ctx)
qed

section \<open>The first record of a section\<close>

text \<open>
  The patterns of the sections \<open>phases:\<close>, \<open>tasks:\<close> and \<open>milestones:\<close> consume the
  newline before the text they capture, and a record is split off at a newline followed
  by its marker. The first record of a section that follows the header directly is
  therefore part of the piece with index 0, which the loops skip.
\<close>

text \<open>
  Claim C2 fails on this document: the task S1 and the milestone M1 have an id and a
  title, and would pass the test of the loop, but they are not in the extracted model.
\<close>

theorem C2_first_record_skipped:
  "parse_content first_record_doc =
     Dict [(''project'', Str []), (''owner'', Str []),
           (''phases'', List [mk_phase ''Setup'' [] [mk_task ''S2'' ''s2'' []]]),
           (''milestones'', List [mk_milestone ''M2'' ''m2'' [] []])]
   \<and> id_and_title (task_of_block '' S1\<newline>        title: s1'')
   \<and> id_and_title (milestone_of_block '' M1\<newline>    title: m1'')"
  by code_simp

text \<open>
  Claim C7 fails on this document: the phase Setup has a name, and would pass the test of
  the loop, but it is not in the extracted model.
\<close>

theorem C7_first_phase_skipped:
  "phases_of plain_doc = [mk_phase ''Build'' [] [mk_task ''B2'' ''b2'' []]]
   \<and> has_name (phase_of_block '' Setup\<newline>    tasks:\<newline>      - id: S1\<newline>        title: s1\<newline>      - id: S2\<newline>        title: s2'')"
  by code_simp

end
